theory Spec2Isabelle
  imports Main "HOL-Library.Word"
begin

section \<open>VKGL: versioned backend references and the Vulkan scheduler\<close>

text \<open>
  The development follows \<^verbatim>\<open>include/OpenGL/backend/vk_reference.h\<close> and
  \<^verbatim>\<open>src/OpenGL/backend/vk_scheduler.cpp\<close>. Objects the scheduler only talks to
  through an interface (the backend buffer manager, the ring buffer, the frame graph) are
  kept abstract: the manager is a table of operations over a state of any type, the ring
  buffer is the sequence of answers \<^verbatim>\<open>grab_with_timeout\<close> gives, and the frame graph is
  the sequence of nodes handed to \<^verbatim>\<open>add_node\<close>.
\<close>

subsection \<open>Scalar types\<close>

text \<open>
  \<^verbatim>\<open>GLuint\<close> is the 32-bit unsigned integer of the GL headers and \<^verbatim>\<open>GLsizeiptr\<close> the
  pointer-sized signed one. \<^verbatim>\<open>OpenGL::TimeMarker\<close> is declared in a header that is not
  part of the sources at hand; \<^verbatim>\<open>vk_reference.h\<close> pulls in \<^verbatim>\<open>chrono\<close> for it and the code
  only ever compares markers with \<^verbatim>\<open>==\<close> and \<^verbatim>\<open>!=\<close>, so a marker is represented by its
  64-bit tick count. A raw pointer is an address, with 0 for \<^verbatim>\<open>nullptr\<close>.
\<close>

type_synonym GLuint = "32 word"
type_synonym GLsizeiptr = "64 word"
type_synonym TimeMarker = "64 word"
type_synonym address = nat

subsection \<open>\<^verbatim>\<open>VKBufferPayload\<close> (vk\_reference.h, lines 15 to 55)\<close>

text \<open>
  The fields are listed in declaration order. The field \<^verbatim>\<open>id\<close> is called \<open>id_vk\<close>,
  because \<open>id\<close> is the identity function of HOL.
\<close>

record VKBufferPayload =
  backend_buffer_creation_time_marker :: TimeMarker
  backend_mem_block_creation_time_marker :: TimeMarker
  buffer_ptr :: address
  frontend_object_creation_time_marker :: TimeMarker
  id_vk :: GLuint
  memory_block_ptr :: address

text \<open>\<^verbatim>\<open>bool operator==(const VKBufferPayload& in_ref) const\<close>, lines 40 to 46.\<close>

definition VKBufferPayload_eq :: "VKBufferPayload \<Rightarrow> VKBufferPayload \<Rightarrow> bool" where
  "VKBufferPayload_eq this in_ref =
     (id_vk this = id_vk in_ref \<and>
      backend_buffer_creation_time_marker this = backend_buffer_creation_time_marker in_ref \<and>
      backend_mem_block_creation_time_marker this = backend_mem_block_creation_time_marker in_ref \<and>
      frontend_object_creation_time_marker this = frontend_object_creation_time_marker in_ref)"

text \<open>\<^verbatim>\<open>bool operator!=(const VKBufferPayload& in_ref) const\<close>, lines 48 to 54.\<close>

definition VKBufferPayload_neq :: "VKBufferPayload \<Rightarrow> VKBufferPayload \<Rightarrow> bool" where
  "VKBufferPayload_neq this in_ref =
     (id_vk this \<noteq> id_vk in_ref \<or>
      backend_buffer_creation_time_marker this \<noteq> backend_buffer_creation_time_marker in_ref \<or>
      backend_mem_block_creation_time_marker this \<noteq> backend_mem_block_creation_time_marker in_ref \<or>
      frontend_object_creation_time_marker this \<noteq> frontend_object_creation_time_marker in_ref)"

subsection \<open>Versioned references\<close>

text \<open>
  \<^verbatim>\<open>ReferenceBase\<close> is declared in \<^verbatim>\<open>OpenGL/reference.h\<close>, which is not part of the
  sources at hand. The scheduler uses two of its members: \<^verbatim>\<open>get_payload\<close> and \<^verbatim>\<open>clone\<close>.
\<close>

datatype 'p ReferenceBase = ReferenceBase (get_payload: 'p)

text \<open>
  Modelled from the spec: \<^verbatim>\<open>ReferenceBase::clone\<close> is missing from the sources. The data
  model says that a reference is "cloned (ownership shared but payload duplicated, not
  reference-counted mutation) whenever a dependency graph node needs its own handle to the
  same logical resource": the clone is a new reference that carries a copy of the payload.
\<close>

definition clone :: "'p ReferenceBase \<Rightarrow> 'p ReferenceBase" where
  "clone r = ReferenceBase (get_payload r)"

type_synonym VKBufferReference = "VKBufferPayload ReferenceBase"

text \<open>
  The payload of a frontend buffer reference. Its declaration is not part of the sources at
  hand; these are the three members \<^verbatim>\<open>process_buffer_data_command\<close> reads (lines 144 to
  146). The member \<^verbatim>\<open>id\<close> is called \<open>id_gl\<close> here.
\<close>

record GLBufferPayload =
  object_creation_time :: TimeMarker
  id_gl :: GLuint
  time_marker :: TimeMarker

type_synonym GLBufferReference = "GLBufferPayload ReferenceBase"

subsection \<open>Commands\<close>

text \<open>
  \<^verbatim>\<open>OpenGL::CommandType\<close>: one constructor for each enumerator that \<^verbatim>\<open>process_command\<close>
  names in a \<^verbatim>\<open>case\<close> label, in the order of the switch (lines 213 to 250). The
  enumeration itself is declared in a header that is not part of the sources at hand, and a
  C++ enumeration object can hold values of its underlying type that none of those labels
  names; \<open>UNRECOGNIZED n\<close> stands for such a value. These are the values the
  \<^verbatim>\<open>default\<close> label of the switch (line 252) receives.
\<close>

datatype CommandType =
    BUFFER_DATA
  | BUFFER_SUB_DATA
  | CLEAR
  | COMPILE_SHADER
  | COMPRESSED_TEX_IMAGE_1D
  | COMPRESSED_TEX_IMAGE_2D
  | COMPRESSED_TEX_IMAGE_3D
  | COMPRESSED_TEX_SUB_IMAGE_1D
  | COMPRESSED_TEX_SUB_IMAGE_2D
  | COMPRESSED_TEX_SUB_IMAGE_3D
  | COPY_BUFFER_SUB_DATA
  | COPY_TEX_IMAGE_1D
  | COPY_TEX_IMAGE_2D
  | COPY_TEX_SUB_IMAGE_1D
  | COPY_TEX_SUB_IMAGE_2D
  | COPY_TEX_SUB_IMAGE_3D
  | DRAW_ARRAYS
  | DRAW_ELEMENTS
  | DRAW_RANGE_ELEMENTS
  | FINISH
  | FLUSH
  | FLUSH_MAPPED_BUFFER_RANGE
  | GET_BUFFER_SUB_DATA
  | GET_COMPRESSED_TEX_IMAGE
  | GET_TEXTURE_IMAGE
  | LINK_PROGRAM
  | MAP_BUFFER
  | MULTI_DRAW_ARRAYS
  | MULTI_DRAW_ELEMENTS
  | READ_PIXELS
  | TEX_IMAGE_1D
  | TEX_IMAGE_2D
  | TEX_IMAGE_3D
  | TEX_SUB_IMAGE_1D
  | TEX_SUB_IMAGE_2D
  | TEX_SUB_IMAGE_3D
  | UNMAP_BUFFER
  | VALIDATE_PROGRAM
  | UNRECOGNIZED nat

text \<open>The case labels of the switch in \<^verbatim>\<open>process_command\<close>, in source order.\<close>

definition enumerated_command_types :: "CommandType list" where
  "enumerated_command_types =
     [BUFFER_DATA, BUFFER_SUB_DATA, CLEAR, COMPILE_SHADER,
      COMPRESSED_TEX_IMAGE_1D, COMPRESSED_TEX_IMAGE_2D, COMPRESSED_TEX_IMAGE_3D, COMPRESSED_TEX_SUB_IMAGE_1D,
      COMPRESSED_TEX_SUB_IMAGE_2D, COMPRESSED_TEX_SUB_IMAGE_3D, COPY_BUFFER_SUB_DATA, COPY_TEX_IMAGE_1D,
      COPY_TEX_IMAGE_2D, COPY_TEX_SUB_IMAGE_1D, COPY_TEX_SUB_IMAGE_2D, COPY_TEX_SUB_IMAGE_3D,
      DRAW_ARRAYS, DRAW_ELEMENTS, DRAW_RANGE_ELEMENTS, FINISH,
      FLUSH, FLUSH_MAPPED_BUFFER_RANGE, GET_BUFFER_SUB_DATA, GET_COMPRESSED_TEX_IMAGE,
      GET_TEXTURE_IMAGE, LINK_PROGRAM, MAP_BUFFER, MULTI_DRAW_ARRAYS,
      MULTI_DRAW_ELEMENTS, READ_PIXELS, TEX_IMAGE_1D, TEX_IMAGE_2D,
      TEX_IMAGE_3D, TEX_SUB_IMAGE_1D, TEX_SUB_IMAGE_2D, TEX_SUB_IMAGE_3D,
      UNMAP_BUFFER, VALIDATE_PROGRAM]"

text \<open>
  The object behind a \<^verbatim>\<open>CommandBaseUniquePtr\<close>. \<^verbatim>\<open>BufferDataCommand\<close> is the one command
  class whose members the scheduler reads: \<^verbatim>\<open>buffer_reference_ptr\<close> (a unique pointer,
  \<open>None\<close> when null) and \<^verbatim>\<open>size\<close> (called \<open>size_cmd\<close> here). An object of any other
  command class is \<open>OtherCommand\<close>; a \<^verbatim>\<open>dynamic_cast\<close> to \<^verbatim>\<open>BufferDataCommand*\<close> yields
  \<^verbatim>\<open>nullptr\<close> for it.
\<close>

datatype CommandObject =
    BufferDataCommand (buffer_reference_ptr: "GLBufferReference option") (size_cmd: GLsizeiptr)
  | OtherCommand

record CommandBase =
  type :: CommandType
  object :: CommandObject

subsection \<open>Assertions\<close>

datatype trap = Assertion_failure | Not_yet_supported

datatype outcome = Returned | Trapped trap

text \<open>
  Modelled from the spec: the macros \<^verbatim>\<open>vkgl_assert\<close> and \<^verbatim>\<open>vkgl_assert_fail\<close> are defined in
  a header that is missing from the sources. The error handling design classes what they
  guard (an unrecognized command tag, a handler called with a null or mismatched resource
  reference) as "Fatal/programmatic (process should trap/abort)": a failed assertion stops
  the function at that point with a trap, and the state is the one reached so far.
\<close>

definition vkgl_assert_fail :: "'s \<Rightarrow> outcome \<times> 's" where
  "vkgl_assert_fail s = (Trapped Assertion_failure, s)"

text \<open>
  Modelled from the spec: the macro \<^verbatim>\<open>vkgl_not_implemented\<close> is missing from the sources.
  The error handling design says of the stubbed handlers that they "must fail loudly", and
  that this "should be represented as a dedicated "not yet supported" signal
  distinguishable from a true assertion failure": the macro traps with a signal of its own.
\<close>

definition vkgl_not_implemented :: "'s \<Rightarrow> outcome \<times> 's" where
  "vkgl_not_implemented s = (Trapped Not_yet_supported, s)"

subsection \<open>The backend buffer manager and the frame graph\<close>

text \<open>
  \<^verbatim>\<open>IVKBufferManager\<close> is an interface; the scheduler calls three of its operations. Each
  takes the manager's state (of any type \<open>'m\<close>) and returns its result with the state
  after the call. \<^verbatim>\<open>acquire_object\<close> returns a unique pointer, \<open>None\<close> when null.
\<close>

record 'm IVKBufferManager =
  acquire_object ::
    "GLuint \<Rightarrow> TimeMarker \<Rightarrow> TimeMarker \<Rightarrow> TimeMarker \<Rightarrow> 'm \<Rightarrow> VKBufferReference option \<times> 'm"
  get_tot_buffer_time_marker :: "GLuint \<Rightarrow> TimeMarker \<Rightarrow> 'm \<Rightarrow> TimeMarker \<times> 'm"
  get_tot_memory_block_time_marker :: "GLuint \<Rightarrow> TimeMarker \<Rightarrow> 'm \<Rightarrow> TimeMarker \<times> 'm"

text \<open>
  \<^verbatim>\<open>OpenGL::NodeIO(reference, in_start_offset, in_size)\<close> and the members of
  \<^verbatim>\<open>VKFrameGraphNodeCreateInfo\<close> that the scheduler fills in (lines 164 to 183).
\<close>

datatype NodeIO =
  NodeIO (reference_ptr: VKBufferReference) (start_offset: GLsizeiptr) (size_io: GLsizeiptr)

record VKFrameGraphNodeCreateInfo =
  inputs :: "NodeIO list"
  outputs :: "NodeIO list"
  command_ptr :: "CommandBase option"

text \<open>
  Modelled from the spec: \<^verbatim>\<open>VKNodes::BufferData::create\<close> is missing from the sources. The
  data model says that a frame graph node "holds ordered lists of input and output
  resource bindings, each binding = (cloned Versioned Reference, byte start offset, byte
  length)": the node made from a create info holds that create info.
\<close>

datatype VKFrameGraphNode = BufferData_node (create_info: VKFrameGraphNodeCreateInfo)

definition BufferData_create :: "VKFrameGraphNodeCreateInfo \<Rightarrow> VKFrameGraphNode" where
  "BufferData_create create_info_ptr = BufferData_node create_info_ptr"

text \<open>
  The two objects the handlers act on through \<^verbatim>\<open>m_backend_buffer_manager_ptr\<close> and
  \<^verbatim>\<open>m_backend_frame_graph_manager_ptr\<close>. The frame graph is the list of the nodes given to
  \<^verbatim>\<open>add_node\<close>, oldest first.
\<close>

record 'm backend =
  backend_buffer_manager :: 'm
  backend_frame_graph_manager :: "VKFrameGraphNode list"

definition add_node :: "VKFrameGraphNode \<Rightarrow> 'm backend \<Rightarrow> 'm backend" where
  "add_node node_ptr b =
     b\<lparr>backend_frame_graph_manager := backend_frame_graph_manager b @ [node_ptr]\<rparr>"

subsection \<open>\<^verbatim>\<open>process_buffer_data_command\<close> (vk\_scheduler.cpp, lines 134 to 192)\<close>

text \<open>
  The call of \<^verbatim>\<open>acquire_object\<close> at lines 150 to 155 has the calls of
  \<^verbatim>\<open>get_tot_buffer_time_marker\<close> and \<^verbatim>\<open>get_tot_memory_block_time_marker\<close> as its third and
  fourth argument. C++ evaluates the arguments of a call in an order the compiler chooses,
  and completes all of them before the call itself; the order is a parameter here.
\<close>

datatype evaluation_order = Left_to_right | Right_to_left

text \<open>Step 1 of the handler, "Retrieve backend buffer reference" (lines 148 to 155).\<close>

definition retrieve_backend_buffer_reference ::
  "'m IVKBufferManager \<Rightarrow> evaluation_order \<Rightarrow> GLuint \<Rightarrow> TimeMarker \<Rightarrow> 'm
   \<Rightarrow> VKBufferReference option \<times> 'm" where
  "retrieve_backend_buffer_reference M ord frontend_buffer_id frontend_buffer_creation_time m =
     (case ord of
        Left_to_right \<Rightarrow>
          (case get_tot_buffer_time_marker M frontend_buffer_id frontend_buffer_creation_time m of
             (buffer_marker, m1) \<Rightarrow>
          (case get_tot_memory_block_time_marker M frontend_buffer_id frontend_buffer_creation_time m1 of
             (memory_block_marker, m2) \<Rightarrow>
          acquire_object M frontend_buffer_id frontend_buffer_creation_time
            buffer_marker memory_block_marker m2))
      | Right_to_left \<Rightarrow>
          (case get_tot_memory_block_time_marker M frontend_buffer_id frontend_buffer_creation_time m of
             (memory_block_marker, m1) \<Rightarrow>
          (case get_tot_buffer_time_marker M frontend_buffer_id frontend_buffer_creation_time m1 of
             (buffer_marker, m2) \<Rightarrow>
          acquire_object M frontend_buffer_id frontend_buffer_creation_time
            buffer_marker memory_block_marker m2)))"

text \<open>
  The handler. The three assertions of the source are the three trapping branches, in
  source order: the \<^verbatim>\<open>dynamic_cast\<close> gave a null pointer (line 141), the command has no
  buffer reference (line 142), \<^verbatim>\<open>acquire_object\<close> returned a null pointer (line 157). The
  snapshot marker \<^verbatim>\<open>time_marker\<close> is read at line 146 and not used. Steps 2 and 3 build
  the create info with one input and one output, make the node and hand it to
  \<^verbatim>\<open>add_node\<close>.
\<close>

definition process_buffer_data_command ::
  "'m IVKBufferManager \<Rightarrow> evaluation_order \<Rightarrow> CommandBase \<Rightarrow> 'm backend
   \<Rightarrow> outcome \<times> 'm backend" where
  "process_buffer_data_command M ord in_command_ptr b =
     (case object in_command_ptr of
        OtherCommand \<Rightarrow> vkgl_assert_fail b
      | BufferDataCommand buffer_reference command_size \<Rightarrow>
          (case buffer_reference of
             None \<Rightarrow> vkgl_assert_fail b
           | Some frontend_reference \<Rightarrow>
               (case retrieve_backend_buffer_reference M ord
                       (id_gl (get_payload frontend_reference))
                       (object_creation_time (get_payload frontend_reference))
                       (backend_buffer_manager b) of
                  (None, m) \<Rightarrow> vkgl_assert_fail (b\<lparr>backend_buffer_manager := m\<rparr>)
                | (Some backend_buffer_reference, m) \<Rightarrow>
                    (Returned,
                     add_node
                       (BufferData_create
                          \<lparr>inputs = [NodeIO (clone backend_buffer_reference) 0 command_size],
                           outputs = [NodeIO (clone backend_buffer_reference) 0 command_size],
                           command_ptr = Some in_command_ptr\<rparr>)
                       (b\<lparr>backend_buffer_manager := m\<rparr>)))))"

subsection \<open>The handlers that are not implemented (lines 194 to 207 and 264 to 432)\<close>

text \<open>
  Each of them is the single statement \<^verbatim>\<open>vkgl_not_implemented();\<close>. None of them looks at
  the pointer it is given.
\<close>

definition process_buffer_sub_data_command :: "CommandBase \<Rightarrow> 's \<Rightarrow> outcome \<times> 's" where
  "process_buffer_sub_data_command in_command_ptr s = vkgl_not_implemented s"

definition process_clear_command :: "CommandBase \<Rightarrow> 's \<Rightarrow> outcome \<times> 's" where
  "process_clear_command in_command_ptr s = vkgl_not_implemented s"

definition process_compile_shader_command :: "CommandBase \<Rightarrow> 's \<Rightarrow> outcome \<times> 's" where
  "process_compile_shader_command in_command_ptr s = vkgl_not_implemented s"

definition process_compressed_tex_image_1D_command :: "CommandBase \<Rightarrow> 's \<Rightarrow> outcome \<times> 's" where
  "process_compressed_tex_image_1D_command in_command_ptr s = vkgl_not_implemented s"

definition process_compressed_tex_image_2D_command :: "CommandBase \<Rightarrow> 's \<Rightarrow> outcome \<times> 's" where
  "process_compressed_tex_image_2D_command in_command_ptr s = vkgl_not_implemented s"

definition process_compressed_tex_image_3D_command :: "CommandBase \<Rightarrow> 's \<Rightarrow> outcome \<times> 's" where
  "process_compressed_tex_image_3D_command in_command_ptr s = vkgl_not_implemented s"

definition process_compressed_tex_sub_image_1D_command :: "CommandBase \<Rightarrow> 's \<Rightarrow> outcome \<times> 's" where
  "process_compressed_tex_sub_image_1D_command in_command_ptr s = vkgl_not_implemented s"

definition process_compressed_tex_sub_image_2D_command :: "CommandBase \<Rightarrow> 's \<Rightarrow> outcome \<times> 's" where
  "process_compressed_tex_sub_image_2D_command in_command_ptr s = vkgl_not_implemented s"

definition process_compressed_tex_sub_image_3D_command :: "CommandBase \<Rightarrow> 's \<Rightarrow> outcome \<times> 's" where
  "process_compressed_tex_sub_image_3D_command in_command_ptr s = vkgl_not_implemented s"

definition process_copy_buffer_sub_data_command :: "CommandBase \<Rightarrow> 's \<Rightarrow> outcome \<times> 's" where
  "process_copy_buffer_sub_data_command in_command_ptr s = vkgl_not_implemented s"

definition process_copy_tex_image_1D_command :: "CommandBase \<Rightarrow> 's \<Rightarrow> outcome \<times> 's" where
  "process_copy_tex_image_1D_command in_command_ptr s = vkgl_not_implemented s"

definition process_copy_tex_image_2D_command :: "CommandBase \<Rightarrow> 's \<Rightarrow> outcome \<times> 's" where
  "process_copy_tex_image_2D_command in_command_ptr s = vkgl_not_implemented s"

definition process_copy_tex_sub_image_1D_command :: "CommandBase \<Rightarrow> 's \<Rightarrow> outcome \<times> 's" where
  "process_copy_tex_sub_image_1D_command in_command_ptr s = vkgl_not_implemented s"

definition process_copy_tex_sub_image_2D_command :: "CommandBase \<Rightarrow> 's \<Rightarrow> outcome \<times> 's" where
  "process_copy_tex_sub_image_2D_command in_command_ptr s = vkgl_not_implemented s"

definition process_copy_tex_sub_image_3D_command :: "CommandBase \<Rightarrow> 's \<Rightarrow> outcome \<times> 's" where
  "process_copy_tex_sub_image_3D_command in_command_ptr s = vkgl_not_implemented s"

definition process_draw_arrays_command :: "CommandBase \<Rightarrow> 's \<Rightarrow> outcome \<times> 's" where
  "process_draw_arrays_command in_command_ptr s = vkgl_not_implemented s"

definition process_draw_elements_command :: "CommandBase \<Rightarrow> 's \<Rightarrow> outcome \<times> 's" where
  "process_draw_elements_command in_command_ptr s = vkgl_not_implemented s"

definition process_draw_range_elements_command :: "CommandBase \<Rightarrow> 's \<Rightarrow> outcome \<times> 's" where
  "process_draw_range_elements_command in_command_ptr s = vkgl_not_implemented s"

definition process_finish_command :: "CommandBase \<Rightarrow> 's \<Rightarrow> outcome \<times> 's" where
  "process_finish_command in_command_ptr s = vkgl_not_implemented s"

definition process_flush_command :: "CommandBase \<Rightarrow> 's \<Rightarrow> outcome \<times> 's" where
  "process_flush_command in_command_ptr s = vkgl_not_implemented s"

definition process_flush_mapped_buffer_range_command :: "CommandBase \<Rightarrow> 's \<Rightarrow> outcome \<times> 's" where
  "process_flush_mapped_buffer_range_command in_command_ptr s = vkgl_not_implemented s"

definition process_get_buffer_sub_data_command :: "CommandBase \<Rightarrow> 's \<Rightarrow> outcome \<times> 's" where
  "process_get_buffer_sub_data_command in_command_ptr s = vkgl_not_implemented s"

definition process_get_compressed_tex_image_command :: "CommandBase \<Rightarrow> 's \<Rightarrow> outcome \<times> 's" where
  "process_get_compressed_tex_image_command in_command_ptr s = vkgl_not_implemented s"

definition process_get_texture_image_command :: "CommandBase \<Rightarrow> 's \<Rightarrow> outcome \<times> 's" where
  "process_get_texture_image_command in_command_ptr s = vkgl_not_implemented s"

definition process_link_program_command :: "CommandBase \<Rightarrow> 's \<Rightarrow> outcome \<times> 's" where
  "process_link_program_command in_command_ptr s = vkgl_not_implemented s"

definition process_map_buffer_command :: "CommandBase \<Rightarrow> 's \<Rightarrow> outcome \<times> 's" where
  "process_map_buffer_command in_command_ptr s = vkgl_not_implemented s"

definition process_multi_draw_arrays_command :: "CommandBase \<Rightarrow> 's \<Rightarrow> outcome \<times> 's" where
  "process_multi_draw_arrays_command in_command_ptr s = vkgl_not_implemented s"

definition process_multi_draw_elements_command :: "CommandBase \<Rightarrow> 's \<Rightarrow> outcome \<times> 's" where
  "process_multi_draw_elements_command in_command_ptr s = vkgl_not_implemented s"

definition process_read_pixels_command :: "CommandBase \<Rightarrow> 's \<Rightarrow> outcome \<times> 's" where
  "process_read_pixels_command in_command_ptr s = vkgl_not_implemented s"

definition process_tex_image_1D_command :: "CommandBase \<Rightarrow> 's \<Rightarrow> outcome \<times> 's" where
  "process_tex_image_1D_command in_command_ptr s = vkgl_not_implemented s"

definition process_tex_image_2D_command :: "CommandBase \<Rightarrow> 's \<Rightarrow> outcome \<times> 's" where
  "process_tex_image_2D_command in_command_ptr s = vkgl_not_implemented s"

definition process_tex_image_3D_command :: "CommandBase \<Rightarrow> 's \<Rightarrow> outcome \<times> 's" where
  "process_tex_image_3D_command in_command_ptr s = vkgl_not_implemented s"

definition process_tex_sub_image_1D_command :: "CommandBase \<Rightarrow> 's \<Rightarrow> outcome \<times> 's" where
  "process_tex_sub_image_1D_command in_command_ptr s = vkgl_not_implemented s"

definition process_tex_sub_image_2D_command :: "CommandBase \<Rightarrow> 's \<Rightarrow> outcome \<times> 's" where
  "process_tex_sub_image_2D_command in_command_ptr s = vkgl_not_implemented s"

definition process_tex_sub_image_3D_command :: "CommandBase \<Rightarrow> 's \<Rightarrow> outcome \<times> 's" where
  "process_tex_sub_image_3D_command in_command_ptr s = vkgl_not_implemented s"

definition process_unmap_buffer_command :: "CommandBase \<Rightarrow> 's \<Rightarrow> outcome \<times> 's" where
  "process_unmap_buffer_command in_command_ptr s = vkgl_not_implemented s"

definition process_validate_program_command :: "CommandBase \<Rightarrow> 's \<Rightarrow> outcome \<times> 's" where
  "process_validate_program_command in_command_ptr s = vkgl_not_implemented s"

subsection \<open>\<^verbatim>\<open>process_command\<close> (lines 209 to 262)\<close>

definition process_command ::
  "'m IVKBufferManager \<Rightarrow> evaluation_order \<Rightarrow> CommandBase \<Rightarrow> 'm backend
   \<Rightarrow> outcome \<times> 'm backend" where
  "process_command M ord in_command_ptr b =
     (case type in_command_ptr of
        BUFFER_DATA                 \<Rightarrow> process_buffer_data_command M ord in_command_ptr b
      | BUFFER_SUB_DATA             \<Rightarrow> process_buffer_sub_data_command in_command_ptr b
      | CLEAR                       \<Rightarrow> process_clear_command in_command_ptr b
      | COMPILE_SHADER              \<Rightarrow> process_compile_shader_command in_command_ptr b
      | COMPRESSED_TEX_IMAGE_1D     \<Rightarrow> process_compressed_tex_image_1D_command in_command_ptr b
      | COMPRESSED_TEX_IMAGE_2D     \<Rightarrow> process_compressed_tex_image_2D_command in_command_ptr b
      | COMPRESSED_TEX_IMAGE_3D     \<Rightarrow> process_compressed_tex_image_3D_command in_command_ptr b
      | COMPRESSED_TEX_SUB_IMAGE_1D \<Rightarrow> process_compressed_tex_sub_image_1D_command in_command_ptr b
      | COMPRESSED_TEX_SUB_IMAGE_2D \<Rightarrow> process_compressed_tex_sub_image_2D_command in_command_ptr b
      | COMPRESSED_TEX_SUB_IMAGE_3D \<Rightarrow> process_compressed_tex_sub_image_3D_command in_command_ptr b
      | COPY_BUFFER_SUB_DATA        \<Rightarrow> process_copy_buffer_sub_data_command in_command_ptr b
      | COPY_TEX_IMAGE_1D           \<Rightarrow> process_copy_tex_image_1D_command in_command_ptr b
      | COPY_TEX_IMAGE_2D           \<Rightarrow> process_copy_tex_image_2D_command in_command_ptr b
      | COPY_TEX_SUB_IMAGE_1D       \<Rightarrow> process_copy_tex_sub_image_1D_command in_command_ptr b
      | COPY_TEX_SUB_IMAGE_2D       \<Rightarrow> process_copy_tex_sub_image_2D_command in_command_ptr b
      | COPY_TEX_SUB_IMAGE_3D       \<Rightarrow> process_copy_tex_sub_image_3D_command in_command_ptr b
      | DRAW_ARRAYS                 \<Rightarrow> process_draw_arrays_command in_command_ptr b
      | DRAW_ELEMENTS               \<Rightarrow> process_draw_elements_command in_command_ptr b
      | DRAW_RANGE_ELEMENTS         \<Rightarrow> process_draw_range_elements_command in_command_ptr b
      | FINISH                      \<Rightarrow> process_finish_command in_command_ptr b
      | FLUSH                       \<Rightarrow> process_flush_command in_command_ptr b
      | FLUSH_MAPPED_BUFFER_RANGE   \<Rightarrow> process_flush_mapped_buffer_range_command in_command_ptr b
      | GET_BUFFER_SUB_DATA         \<Rightarrow> process_get_buffer_sub_data_command in_command_ptr b
      | GET_COMPRESSED_TEX_IMAGE    \<Rightarrow> process_get_compressed_tex_image_command in_command_ptr b
      | GET_TEXTURE_IMAGE           \<Rightarrow> process_get_texture_image_command in_command_ptr b
      | LINK_PROGRAM                \<Rightarrow> process_link_program_command in_command_ptr b
      | MAP_BUFFER                  \<Rightarrow> process_map_buffer_command in_command_ptr b
      | MULTI_DRAW_ARRAYS           \<Rightarrow> process_multi_draw_arrays_command in_command_ptr b
      | MULTI_DRAW_ELEMENTS         \<Rightarrow> process_multi_draw_elements_command in_command_ptr b
      | READ_PIXELS                 \<Rightarrow> process_read_pixels_command in_command_ptr b
      | TEX_IMAGE_1D                \<Rightarrow> process_tex_image_1D_command in_command_ptr b
      | TEX_IMAGE_2D                \<Rightarrow> process_tex_image_2D_command in_command_ptr b
      | TEX_IMAGE_3D                \<Rightarrow> process_tex_image_3D_command in_command_ptr b
      | TEX_SUB_IMAGE_1D            \<Rightarrow> process_tex_sub_image_1D_command in_command_ptr b
      | TEX_SUB_IMAGE_2D            \<Rightarrow> process_tex_sub_image_2D_command in_command_ptr b
      | TEX_SUB_IMAGE_3D            \<Rightarrow> process_tex_sub_image_3D_command in_command_ptr b
      | UNMAP_BUFFER                \<Rightarrow> process_unmap_buffer_command in_command_ptr b
      | VALIDATE_PROGRAM            \<Rightarrow> process_validate_program_command in_command_ptr b
      | UNRECOGNIZED n              \<Rightarrow> vkgl_assert_fail b)"

subsection \<open>\<^verbatim>\<open>main_thread_entrypoint\<close> (lines 100 to 132)\<close>

text \<open>
  One turn of the loop calls \<^verbatim>\<open>grab_with_timeout\<close> once. The ring buffer and the
  terminating flag are written by other threads, so what the worker observes in a turn is
  an input: the command it grabbed (\<open>None\<close> when the wait timed out) and the value
  \<^verbatim>\<open>m_terminating\<close> holds in that turn. The worker reads the flag only after a timeout.
  The list holds the turns observed so far; when it is used up the thread is still inside
  the loop.
\<close>

type_synonym turn = "CommandBase option \<times> bool"

datatype thread_state = Thread_quit | Thread_trapped trap | Thread_in_loop

fun main_thread_entrypoint ::
  "'m IVKBufferManager \<Rightarrow> evaluation_order \<Rightarrow> turn list \<Rightarrow> 'm backend
   \<Rightarrow> thread_state \<times> 'm backend" where
  "main_thread_entrypoint M ord [] b = (Thread_in_loop, b)"
| "main_thread_entrypoint M ord ((None, terminating) # turns) b =
     (if terminating then (Thread_quit, b) else main_thread_entrypoint M ord turns b)"
| "main_thread_entrypoint M ord ((Some grabbed, terminating) # turns) b =
     (case process_command M ord grabbed b of
        (Returned, b') \<Rightarrow> main_thread_entrypoint M ord turns b'
      | (Trapped t, b') \<Rightarrow> (Thread_trapped t, b'))"

text \<open>
  What the loop is meant to do with the turns, in the words of the design: the commands
  grabbed before the first timeout that finds the flag set, each passed to
  \<^verbatim>\<open>process_command\<close> in order; a trap ends the run.
\<close>

definition grabbed_commands :: "turn list \<Rightarrow> CommandBase list" where
  "grabbed_commands turns =
     concat (map (\<lambda>(c, terminating). case c of None \<Rightarrow> [] | Some grabbed \<Rightarrow> [grabbed])
               (takeWhile (\<lambda>t. t \<noteq> (None, True)) turns))"

fun process_commands_in_order ::
  "'m IVKBufferManager \<Rightarrow> evaluation_order \<Rightarrow> CommandBase list \<Rightarrow> 'm backend
   \<Rightarrow> outcome \<times> 'm backend" where
  "process_commands_in_order M ord [] b = (Returned, b)"
| "process_commands_in_order M ord (c # cs) b =
     (case process_command M ord c b of
        (Returned, b') \<Rightarrow> process_commands_in_order M ord cs b'
      | (Trapped t, b') \<Rightarrow> (Trapped t, b'))"

subsection \<open>The constructor and the destructor (lines 14 to 38)\<close>

text \<open>
  The members the destructor touches. A \<^verbatim>\<open>std::thread\<close> is joinable until it has been
  joined.
\<close>

datatype scheduler_thread = Joinable | Joined

record VKScheduler =
  m_terminating :: bool
  m_scheduler_thread_ptr :: "scheduler_thread option"
  m_command_ring_buffer_ptr :: "CommandBase list option"

text \<open>The constructor initialises \<^verbatim>\<open>m_terminating\<close>; both unique pointers start out null.\<close>

definition VKScheduler_constructor :: VKScheduler where
  "VKScheduler_constructor =
     \<lparr>m_terminating = False, m_scheduler_thread_ptr = None, m_command_ring_buffer_ptr = None\<rparr>"

text \<open>
  The destructor makes up to three calls on the members. Each call is a step on the pair
  of the calls made so far, oldest first, and the members as they are now.
\<close>

datatype destructor_call = Terminating_exchange bool | Scheduler_thread_join | Command_ring_buffer_reset

type_synonym destruction = "destructor_call list \<times> VKScheduler"

text \<open>\<^verbatim>\<open>m_terminating.exchange(value)\<close>\<close>

definition terminating_exchange :: "bool \<Rightarrow> destruction \<Rightarrow> destruction" where
  "terminating_exchange v d =
     (fst d @ [Terminating_exchange v], (snd d)\<lparr>m_terminating := v\<rparr>)"

text \<open>\<^verbatim>\<open>m_scheduler_thread_ptr->join()\<close>: returns when the worker thread has ended.\<close>

definition scheduler_thread_join :: "destruction \<Rightarrow> destruction" where
  "scheduler_thread_join d =
     (fst d @ [Scheduler_thread_join], (snd d)\<lparr>m_scheduler_thread_ptr := Some Joined\<rparr>)"

text \<open>\<^verbatim>\<open>m_command_ring_buffer_ptr.reset()\<close>: releases the ring buffer.\<close>

definition command_ring_buffer_reset :: "destruction \<Rightarrow> destruction" where
  "command_ring_buffer_reset d =
     (fst d @ [Command_ring_buffer_reset], (snd d)\<lparr>m_command_ring_buffer_ptr := None\<rparr>)"

text \<open>\<^verbatim>\<open>~VKScheduler\<close>, lines 26 to 38.\<close>

definition VKScheduler_destructor :: "VKScheduler \<Rightarrow> destruction" where
  "VKScheduler_destructor s =
     command_ring_buffer_reset
       (if m_scheduler_thread_ptr s \<noteq> None
        then scheduler_thread_join (terminating_exchange True ([], s))
        else ([], s))"

subsection \<open>Observing the calls made on a manager\<close>

text \<open>
  A manager wrapped by \<open>recording\<close> behaves as the manager it wraps and keeps, beside
  that manager's state, the list of the calls it has received, oldest first. A call of one
  of the two marker queries is listed with the marker it returned.
\<close>

datatype manager_call =
    Call_get_tot_buffer_time_marker GLuint TimeMarker TimeMarker
  | Call_get_tot_memory_block_time_marker GLuint TimeMarker TimeMarker
  | Call_acquire_object GLuint TimeMarker TimeMarker TimeMarker

definition recording :: "'m IVKBufferManager \<Rightarrow> ('m \<times> manager_call list) IVKBufferManager" where
  "recording M =
     \<lparr>acquire_object = (\<lambda>i t buffer_marker memory_block_marker (m, calls).
        case acquire_object M i t buffer_marker memory_block_marker m of
          (r, m') \<Rightarrow> (r, (m', calls @ [Call_acquire_object i t buffer_marker memory_block_marker]))),
      get_tot_buffer_time_marker = (\<lambda>i t (m, calls).
        case get_tot_buffer_time_marker M i t m of
          (marker, m') \<Rightarrow> (marker, (m', calls @ [Call_get_tot_buffer_time_marker i t marker]))),
      get_tot_memory_block_time_marker = (\<lambda>i t (m, calls).
        case get_tot_memory_block_time_marker M i t m of
          (marker, m') \<Rightarrow> (marker, (m', calls @ [Call_get_tot_memory_block_time_marker i t marker])))\<rparr>"

subsection \<open>Objects used in the examples\<close>

text \<open>
  A manager without state: the two queries answer the markers 7 and 9, and
  \<^verbatim>\<open>acquire_object\<close> answers the pointer it was set up with.
\<close>

definition example_manager :: "VKBufferReference option \<Rightarrow> unit IVKBufferManager" where
  "example_manager acquired =
     \<lparr>acquire_object = (\<lambda>i t buffer_marker memory_block_marker m. (acquired, m)),
      get_tot_buffer_time_marker = (\<lambda>i t m. (7, m)),
      get_tot_memory_block_time_marker = (\<lambda>i t m. (9, m))\<rparr>"

text \<open>The frontend buffer 3, created at marker 100, and a "buffer data" command of 128 bytes for it.\<close>

definition example_frontend_reference :: GLBufferReference where
  "example_frontend_reference =
     ReferenceBase \<lparr>object_creation_time = 100, id_gl = 3, time_marker = 150\<rparr>"

definition example_command :: CommandBase where
  "example_command =
     \<lparr>type = BUFFER_DATA, object = BufferDataCommand (Some example_frontend_reference) 128\<rparr>"

definition example_payload :: VKBufferPayload where
  "example_payload =
     \<lparr>backend_buffer_creation_time_marker = 7,
      backend_mem_block_creation_time_marker = 9,
      buffer_ptr = 4096,
      frontend_object_creation_time_marker = 100,
      id_vk = 3,
      memory_block_ptr = 8192\<rparr>"

definition example_backend :: "unit backend" where
  "example_backend = \<lparr>backend_buffer_manager = (), backend_frame_graph_manager = []\<rparr>"

definition example_recording_backend :: "(unit \<times> manager_call list) backend" where
  "example_recording_backend =
     \<lparr>backend_buffer_manager = ((), []), backend_frame_graph_manager = []\<rparr>"

definition example_backend_reference :: VKBufferReference where
  "example_backend_reference = ReferenceBase example_payload"


text \<open>A command whose tag has no case label, and a command with the tag \<open>CLEAR\<close>.\<close>

definition unrecognized_command :: CommandBase where
  "unrecognized_command = \<lparr>type = UNRECOGNIZED 38, object = OtherCommand\<rparr>"

definition clear_command :: CommandBase where
  "clear_command = \<lparr>type = CLEAR, object = OtherCommand\<rparr>"

text \<open>A scheduler whose worker thread runs and whose ring buffer holds one command.\<close>

definition running_scheduler :: VKScheduler where
  "running_scheduler =
     \<lparr>m_terminating = False,
      m_scheduler_thread_ptr = Some Joinable,
      m_command_ring_buffer_ptr = Some [example_command]\<rparr>"

section \<open>Properties of the payload comparison\<close>

text \<open>
  C1. For every pair of payloads, \<^verbatim>\<open>operator==\<close> answers true exactly when the ids are
  equal and each of the three time markers (frontend object creation, backend buffer
  creation, backend memory block creation) is equal to its counterpart. In particular, two
  payloads with the same id whose frontend creation markers differ compare unequal.
\<close>

theorem VKBufferPayload_eq_iff:
  "(VKBufferPayload_eq a b \<longleftrightarrow>
      id_vk a = id_vk b \<and>
      frontend_object_creation_time_marker a = frontend_object_creation_time_marker b \<and>
      backend_buffer_creation_time_marker a = backend_buffer_creation_time_marker b \<and>
      backend_mem_block_creation_time_marker a = backend_mem_block_creation_time_marker b) \<and>
   (id_vk a = id_vk b \<and>
      frontend_object_creation_time_marker a \<noteq> frontend_object_creation_time_marker b
      \<longrightarrow> \<not> VKBufferPayload_eq a b)"
  unfolding VKBufferPayload_eq_def by blast

text \<open>
  The same buffer id with the frontend creation marker 100 on one side and 200 on the
  other: the ids agree, the markers differ, and the payloads are unequal.
\<close>

theorem VKBufferPayload_eq_iff_witness:
  "id_vk example_payload =
     id_vk (example_payload\<lparr>frontend_object_creation_time_marker := 200\<rparr>) \<and>
   frontend_object_creation_time_marker example_payload \<noteq>
     frontend_object_creation_time_marker
       (example_payload\<lparr>frontend_object_creation_time_marker := 200\<rparr>) \<and>
   \<not> VKBufferPayload_eq example_payload
       (example_payload\<lparr>frontend_object_creation_time_marker := 200\<rparr>) \<and>
   VKBufferPayload_eq example_payload example_payload"
proof -
  have differ: "frontend_object_creation_time_marker example_payload \<noteq>
      frontend_object_creation_time_marker
        (example_payload\<lparr>frontend_object_creation_time_marker := 200\<rparr>)"
    by (simp add: example_payload_def)
  show ?thesis
    using differ
      VKBufferPayload_eq_iff [of example_payload
        "example_payload\<lparr>frontend_object_creation_time_marker := 200\<rparr>"]
      VKBufferPayload_eq_iff [of example_payload example_payload]
    by simp
qed

text \<open>
  C9. The comparison does not depend on the two backend pointers: replacing
  \<^verbatim>\<open>buffer_ptr\<close> and \<^verbatim>\<open>memory_block_ptr\<close> by any other pointers, on either side, changes
  neither the answer of \<^verbatim>\<open>operator==\<close> nor that of \<^verbatim>\<open>operator!=\<close>; and two payloads that
  agree on the id and on the three markers but differ in a pointer compare equal.
\<close>

theorem VKBufferPayload_eq_ignores_pointers:
  "VKBufferPayload_eq (a\<lparr>buffer_ptr := p, memory_block_ptr := q\<rparr>)
                      (b\<lparr>buffer_ptr := p', memory_block_ptr := q'\<rparr>) = VKBufferPayload_eq a b \<and>
   VKBufferPayload_neq (a\<lparr>buffer_ptr := p, memory_block_ptr := q\<rparr>)
                       (b\<lparr>buffer_ptr := p', memory_block_ptr := q'\<rparr>) = VKBufferPayload_neq a b \<and>
   (id_vk a = id_vk b \<and>
    frontend_object_creation_time_marker a = frontend_object_creation_time_marker b \<and>
    backend_buffer_creation_time_marker a = backend_buffer_creation_time_marker b \<and>
    backend_mem_block_creation_time_marker a = backend_mem_block_creation_time_marker b \<and>
    (buffer_ptr a \<noteq> buffer_ptr b \<or> memory_block_ptr a \<noteq> memory_block_ptr b)
    \<longrightarrow> VKBufferPayload_eq a b \<and> \<not> VKBufferPayload_neq a b)"
  by (simp add: VKBufferPayload_eq_def VKBufferPayload_neq_def)

text \<open>Two payloads for buffer 3 with the same markers and two different buffer pointers.\<close>

theorem VKBufferPayload_eq_ignores_pointers_witness:
  "buffer_ptr example_payload \<noteq> buffer_ptr (example_payload\<lparr>buffer_ptr := 12288\<rparr>) \<and>
   VKBufferPayload_eq example_payload (example_payload\<lparr>buffer_ptr := 12288\<rparr>) \<and>
   \<not> VKBufferPayload_neq example_payload (example_payload\<lparr>buffer_ptr := 12288\<rparr>)"
proof -
  have differ: "buffer_ptr example_payload \<noteq> buffer_ptr (example_payload\<lparr>buffer_ptr := 12288\<rparr>)"
    by (simp add: example_payload_def)
  show ?thesis
    using differ
      VKBufferPayload_eq_ignores_pointers
        [where a = example_payload and b = "example_payload\<lparr>buffer_ptr := 12288\<rparr>"]
    by simp
qed

text \<open>
  C10. For every pair of payloads, \<^verbatim>\<open>operator!=\<close> answers the negation of
  \<^verbatim>\<open>operator==\<close>: no pair is both equal and unequal, and no pair is neither.
\<close>

theorem VKBufferPayload_neq_is_not_eq:
  "VKBufferPayload_neq a b = (\<not> VKBufferPayload_eq a b)"
  unfolding VKBufferPayload_eq_def VKBufferPayload_neq_def by blast

text \<open>A pair that is unequal (the ids 3 and 4) and a pair that is equal.\<close>

theorem VKBufferPayload_neq_is_not_eq_witness:
  "VKBufferPayload_neq example_payload (example_payload\<lparr>id_vk := 4\<rparr>) \<and>
   \<not> VKBufferPayload_eq example_payload (example_payload\<lparr>id_vk := 4\<rparr>) \<and>
   \<not> VKBufferPayload_neq example_payload example_payload \<and>
   VKBufferPayload_eq example_payload example_payload"
proof -
  have unequal: "\<not> VKBufferPayload_eq example_payload (example_payload\<lparr>id_vk := 4\<rparr>)"
    by (simp add: VKBufferPayload_eq_def example_payload_def)
  have equal: "VKBufferPayload_eq example_payload example_payload"
    by (simp add: VKBufferPayload_eq_def)
  show ?thesis
    using unequal equal
      VKBufferPayload_neq_is_not_eq [of example_payload "example_payload\<lparr>id_vk := 4\<rparr>"]
      VKBufferPayload_neq_is_not_eq [of example_payload example_payload]
    by simp
qed

section \<open>Properties of the "buffer data" handler\<close>

lemma process_buffer_data_returns:
  assumes "object c = BufferDataCommand (Some f) S"
    and "retrieve_backend_buffer_reference M ord (id_gl (get_payload f))
           (object_creation_time (get_payload f)) (backend_buffer_manager b) = (Some r, m)"
  shows "process_buffer_data_command M ord c b =
           (Returned,
            \<lparr>backend_buffer_manager = m,
             backend_frame_graph_manager = backend_frame_graph_manager b @
               [BufferData_node \<lparr>inputs = [NodeIO (clone r) 0 S],
                                 outputs = [NodeIO (clone r) 0 S],
                                 command_ptr = Some c\<rparr>]\<rparr>)"
  using assms by (simp add: process_buffer_data_command_def add_node_def BufferData_create_def)

lemma process_buffer_data_traps:
  assumes "object c = BufferDataCommand (Some f) S"
    and "retrieve_backend_buffer_reference M ord (id_gl (get_payload f))
           (object_creation_time (get_payload f)) (backend_buffer_manager b) = (None, m)"
  shows "process_buffer_data_command M ord c b =
           (Trapped Assertion_failure, b\<lparr>backend_buffer_manager := m\<rparr>)"
  using assms by (simp add: process_buffer_data_command_def vkgl_assert_fail_def)

lemma process_command_buffer_data:
  "type c = BUFFER_DATA \<Longrightarrow> process_command M ord c b = process_buffer_data_command M ord c b"
  by (simp add: process_command_def)


lemma example_retrieve:
  "retrieve_backend_buffer_reference (example_manager acquired) ord
     (id_gl (get_payload example_frontend_reference))
     (object_creation_time (get_payload example_frontend_reference)) () = (acquired, ())"
  by (cases ord) (simp_all add: retrieve_backend_buffer_reference_def example_manager_def)

lemma example_command_simps:
  "type example_command = BUFFER_DATA"
  "object example_command = BufferDataCommand (Some example_frontend_reference) 128"
  by (simp_all add: example_command_def)



text \<open>
  C3, as the code has it. If \<^verbatim>\<open>acquire_object\<close> answers a null pointer while a "buffer
  data" command is handled, the assertion at line 157 fails: the handler traps with an
  assertion failure, adds no node, and leaves the frame graph as it was. Nothing is handed
  back to the caller as a failure value, and the worker loop does not go on to a later
  command: the trap is the result of the thread, whatever the ring buffer holds next.
\<close>

theorem acquire_failure_traps:
  assumes "type c = BUFFER_DATA" "object c = BufferDataCommand (Some f) S"
    and "retrieve_backend_buffer_reference M ord (id_gl (get_payload f))
           (object_creation_time (get_payload f)) (backend_buffer_manager b) = (None, m)"
  shows "process_buffer_data_command M ord c b =
           (Trapped Assertion_failure, b\<lparr>backend_buffer_manager := m\<rparr>) \<and>
         main_thread_entrypoint M ord ((Some c, flag) # turns) b =
           (Thread_trapped Assertion_failure, b\<lparr>backend_buffer_manager := m\<rparr>)"
  using assms process_buffer_data_traps [OF assms(2,3)]
  by (simp add: process_command_buffer_data)

theorem acquire_failure_traps_witness:
  "type example_command = BUFFER_DATA \<and>
   object example_command = BufferDataCommand (Some example_frontend_reference) 128 \<and>
   retrieve_backend_buffer_reference (example_manager None) Right_to_left 3 100 () = (None, ()) \<and>
   process_buffer_data_command (example_manager None) Right_to_left example_command
     example_backend = (Trapped Assertion_failure, example_backend) \<and>
   main_thread_entrypoint (example_manager None) Right_to_left
     [(Some example_command, True), (Some clear_command, False)] example_backend =
       (Thread_trapped Assertion_failure, example_backend)"
proof -
  have r: "retrieve_backend_buffer_reference (example_manager None) Right_to_left
      (id_gl (get_payload example_frontend_reference))
      (object_creation_time (get_payload example_frontend_reference))
      (backend_buffer_manager example_backend) = (None, ())"
    using example_retrieve [of None Right_to_left] by (simp add: example_backend_def)
  have ids: "id_gl (get_payload example_frontend_reference) = 3"
    "object_creation_time (get_payload example_frontend_reference) = 100"
    by (simp_all add: example_frontend_reference_def)
  have unchanged: "example_backend\<lparr>backend_buffer_manager := ()\<rparr> = example_backend"
    by simp
  show ?thesis
    using acquire_failure_traps
      [OF example_command_simps r, of True "[(Some clear_command, False)]"]
      example_command_simps r ids unchanged
    by (simp add: example_backend_def)
qed

text \<open>
  C3 as stated fails. With a manager whose \<^verbatim>\<open>acquire_object\<close> answers null, the handler
  ends in a trap, and the worker that grabbed this command and then a second one ends in
  the same trap with no node added: the second command is never processed.
\<close>

theorem acquire_failure_counterexample:
  "fst (process_buffer_data_command (example_manager None) Left_to_right example_command
          example_backend) = Trapped Assertion_failure \<and>
   main_thread_entrypoint (example_manager None) Left_to_right
     [(Some example_command, False), (Some example_command, False), (None, True)]
     example_backend = (Thread_trapped Assertion_failure, example_backend)"
  by (simp add: process_command_def process_buffer_data_command_def
      retrieve_backend_buffer_reference_def example_manager_def example_command_def
      example_frontend_reference_def example_backend_def vkgl_assert_fail_def)

section \<open>The calls the "buffer data" handler makes on the manager\<close>

lemma recording_simps:
  "acquire_object (recording M) i t x y (m, calls) =
     (fst (acquire_object M i t x y m),
      (snd (acquire_object M i t x y m), calls @ [Call_acquire_object i t x y]))"
  "get_tot_buffer_time_marker (recording M) i t (m, calls) =
     (fst (get_tot_buffer_time_marker M i t m),
      (snd (get_tot_buffer_time_marker M i t m),
       calls @ [Call_get_tot_buffer_time_marker i t (fst (get_tot_buffer_time_marker M i t m))]))"
  "get_tot_memory_block_time_marker (recording M) i t (m, calls) =
     (fst (get_tot_memory_block_time_marker M i t m),
      (snd (get_tot_memory_block_time_marker M i t m),
       calls @ [Call_get_tot_memory_block_time_marker i t
                  (fst (get_tot_memory_block_time_marker M i t m))]))"
  by (simp_all add: recording_def split: prod.splits)

lemma recorded_retrieve:
  "\<exists>buffer_marker memory_block_marker.
     snd (snd (retrieve_backend_buffer_reference (recording M) ord i t (m, calls))) =
       calls @
       (case ord of
          Left_to_right \<Rightarrow>
            [Call_get_tot_buffer_time_marker i t buffer_marker,
             Call_get_tot_memory_block_time_marker i t memory_block_marker]
        | Right_to_left \<Rightarrow>
            [Call_get_tot_memory_block_time_marker i t memory_block_marker,
             Call_get_tot_buffer_time_marker i t buffer_marker]) @
       [Call_acquire_object i t buffer_marker memory_block_marker]"
  by (cases ord) (simp_all add: retrieve_backend_buffer_reference_def recording_simps)

lemma process_buffer_data_manager:
  assumes "object c = BufferDataCommand (Some f) S"
  shows "backend_buffer_manager (snd (process_buffer_data_command M ord c b)) =
           snd (retrieve_backend_buffer_reference M ord (id_gl (get_payload f))
                  (object_creation_time (get_payload f)) (backend_buffer_manager b))"
  using assms
  by (simp add: process_buffer_data_command_def vkgl_assert_fail_def add_node_def
      split: prod.splits option.splits)

text \<open>
  C7, as the code has it. For every "buffer data" command that carries a buffer
  reference, the handler calls the two marker queries and then \<^verbatim>\<open>acquire_object\<close>, all
  three with the id and the creation marker of the command's buffer reference, and passes
  the markers the two queries returned as the last two arguments of \<^verbatim>\<open>acquire_object\<close>.
  \<^verbatim>\<open>acquire_object\<close> is always the last of the three. The two queries are arguments of
  that call, so which of them runs first is the compiler's choice: the buffer marker query
  under left to right evaluation, the memory block marker query under right to left.
\<close>

theorem buffer_data_manager_calls:
  assumes "object c = BufferDataCommand (Some f) S"
  shows "\<exists>buffer_marker memory_block_marker.
     snd (backend_buffer_manager (snd (process_buffer_data_command (recording M) ord c b))) =
       snd (backend_buffer_manager b) @
       (case ord of
          Left_to_right \<Rightarrow>
            [Call_get_tot_buffer_time_marker (id_gl (get_payload f))
               (object_creation_time (get_payload f)) buffer_marker,
             Call_get_tot_memory_block_time_marker (id_gl (get_payload f))
               (object_creation_time (get_payload f)) memory_block_marker]
        | Right_to_left \<Rightarrow>
            [Call_get_tot_memory_block_time_marker (id_gl (get_payload f))
               (object_creation_time (get_payload f)) memory_block_marker,
             Call_get_tot_buffer_time_marker (id_gl (get_payload f))
               (object_creation_time (get_payload f)) buffer_marker]) @
       [Call_acquire_object (id_gl (get_payload f)) (object_creation_time (get_payload f))
          buffer_marker memory_block_marker]"
proof -
  obtain m calls where state: "backend_buffer_manager b = (m, calls)"
    by (cases "backend_buffer_manager b")
  show ?thesis
    using recorded_retrieve [of M ord "id_gl (get_payload f)"
        "object_creation_time (get_payload f)" m calls]
    by (simp add: process_buffer_data_manager [OF assms] state)
qed

text \<open>With left to right evaluation the calls for the example command come in the order of the claim.\<close>

theorem buffer_data_manager_calls_witness:
  "object example_command = BufferDataCommand (Some example_frontend_reference) 128 \<and>
   snd (backend_buffer_manager (snd (process_buffer_data_command
      (recording (example_manager (Some example_backend_reference))) Left_to_right
      example_command example_recording_backend))) =
     [Call_get_tot_buffer_time_marker 3 100 7,
      Call_get_tot_memory_block_time_marker 3 100 9,
      Call_acquire_object 3 100 7 9] \<and>
   (\<exists>buffer_marker memory_block_marker.
      snd (backend_buffer_manager (snd (process_buffer_data_command
        (recording (example_manager (Some example_backend_reference))) Left_to_right
        example_command example_recording_backend))) =
      [Call_get_tot_buffer_time_marker 3 100 buffer_marker,
       Call_get_tot_memory_block_time_marker 3 100 memory_block_marker,
       Call_acquire_object 3 100 buffer_marker memory_block_marker])"
proof -
  have calls: "snd (backend_buffer_manager (snd (process_buffer_data_command
      (recording (example_manager (Some example_backend_reference))) Left_to_right
      example_command example_recording_backend))) =
     [Call_get_tot_buffer_time_marker 3 100 7,
      Call_get_tot_memory_block_time_marker 3 100 9,
      Call_acquire_object 3 100 7 9]"
    by (simp add: process_buffer_data_command_def retrieve_backend_buffer_reference_def
        recording_def example_manager_def example_command_def example_frontend_reference_def
        example_recording_backend_def add_node_def)
  have general: "\<exists>buffer_marker memory_block_marker.
      snd (backend_buffer_manager (snd (process_buffer_data_command
        (recording (example_manager (Some example_backend_reference))) Left_to_right
        example_command example_recording_backend))) =
      [Call_get_tot_buffer_time_marker 3 100 buffer_marker,
       Call_get_tot_memory_block_time_marker 3 100 memory_block_marker,
       Call_acquire_object 3 100 buffer_marker memory_block_marker]"
    using buffer_data_manager_calls [OF example_command_simps(2),
        of "example_manager (Some example_backend_reference)" Left_to_right
          example_recording_backend]
    by (simp add: example_frontend_reference_def example_recording_backend_def)
  from calls general example_command_simps(2) show ?thesis by blast
qed

text \<open>
  C7 as stated fails where the compiler evaluates the arguments from right to left: the
  memory block marker query is called first, the buffer marker query second.
\<close>

theorem buffer_data_manager_calls_counterexample:
  "snd (backend_buffer_manager (snd (process_buffer_data_command
      (recording (example_manager (Some example_backend_reference))) Right_to_left
      example_command example_recording_backend))) =
     [Call_get_tot_memory_block_time_marker 3 100 9,
      Call_get_tot_buffer_time_marker 3 100 7,
      Call_acquire_object 3 100 7 9]"
  by (simp add: process_buffer_data_command_def retrieve_backend_buffer_reference_def
      recording_def example_manager_def example_command_def example_frontend_reference_def
      example_recording_backend_def add_node_def)

section \<open>Properties of the dispatch\<close>

lemmas stub_handler_defs =
  process_buffer_sub_data_command_def
  process_clear_command_def
  process_compile_shader_command_def
  process_compressed_tex_image_1D_command_def
  process_compressed_tex_image_2D_command_def
  process_compressed_tex_image_3D_command_def
  process_compressed_tex_sub_image_1D_command_def
  process_compressed_tex_sub_image_2D_command_def
  process_compressed_tex_sub_image_3D_command_def
  process_copy_buffer_sub_data_command_def
  process_copy_tex_image_1D_command_def
  process_copy_tex_image_2D_command_def
  process_copy_tex_sub_image_1D_command_def
  process_copy_tex_sub_image_2D_command_def
  process_copy_tex_sub_image_3D_command_def
  process_draw_arrays_command_def
  process_draw_elements_command_def
  process_draw_range_elements_command_def
  process_finish_command_def
  process_flush_command_def
  process_flush_mapped_buffer_range_command_def
  process_get_buffer_sub_data_command_def
  process_get_compressed_tex_image_command_def
  process_get_texture_image_command_def
  process_link_program_command_def
  process_map_buffer_command_def
  process_multi_draw_arrays_command_def
  process_multi_draw_elements_command_def
  process_read_pixels_command_def
  process_tex_image_1D_command_def
  process_tex_image_2D_command_def
  process_tex_image_3D_command_def
  process_tex_sub_image_1D_command_def
  process_tex_sub_image_2D_command_def
  process_tex_sub_image_3D_command_def
  process_unmap_buffer_command_def
  process_validate_program_command_def

lemma process_command_stub:
  "t \<in> set enumerated_command_types \<Longrightarrow> t \<noteq> BUFFER_DATA \<Longrightarrow> type c = t \<Longrightarrow>
   process_command M ord c b = (Trapped Not_yet_supported, b)"
  unfolding process_command_def enumerated_command_types_def
  by (cases t) (simp_all add: stub_handler_defs vkgl_not_implemented_def)

text \<open>
  C4, as the code has it. \<^verbatim>\<open>process_command\<close> hands a command whose tag is one of the 38
  enumerated command types to the handler of that tag. The switch ends in a \<^verbatim>\<open>default\<close>
  label: a command with any other tag is accepted, reaches that label when the program
  runs, and fails the assertion there, which is a trap and not a failure value.
\<close>

theorem process_command_dispatch:
  "process_command M ord \<lparr>type = BUFFER_DATA, object = ob\<rparr> b =
     process_buffer_data_command M ord \<lparr>type = BUFFER_DATA, object = ob\<rparr> b \<and>
   process_command M ord \<lparr>type = BUFFER_SUB_DATA, object = ob\<rparr> b =
     process_buffer_sub_data_command \<lparr>type = BUFFER_SUB_DATA, object = ob\<rparr> b \<and>
   process_command M ord \<lparr>type = CLEAR, object = ob\<rparr> b =
     process_clear_command \<lparr>type = CLEAR, object = ob\<rparr> b \<and>
   process_command M ord \<lparr>type = COMPILE_SHADER, object = ob\<rparr> b =
     process_compile_shader_command \<lparr>type = COMPILE_SHADER, object = ob\<rparr> b \<and>
   process_command M ord \<lparr>type = COMPRESSED_TEX_IMAGE_1D, object = ob\<rparr> b =
     process_compressed_tex_image_1D_command \<lparr>type = COMPRESSED_TEX_IMAGE_1D, object = ob\<rparr> b \<and>
   process_command M ord \<lparr>type = COMPRESSED_TEX_IMAGE_2D, object = ob\<rparr> b =
     process_compressed_tex_image_2D_command \<lparr>type = COMPRESSED_TEX_IMAGE_2D, object = ob\<rparr> b \<and>
   process_command M ord \<lparr>type = COMPRESSED_TEX_IMAGE_3D, object = ob\<rparr> b =
     process_compressed_tex_image_3D_command \<lparr>type = COMPRESSED_TEX_IMAGE_3D, object = ob\<rparr> b \<and>
   process_command M ord \<lparr>type = COMPRESSED_TEX_SUB_IMAGE_1D, object = ob\<rparr> b =
     process_compressed_tex_sub_image_1D_command \<lparr>type = COMPRESSED_TEX_SUB_IMAGE_1D, object = ob\<rparr> b \<and>
   process_command M ord \<lparr>type = COMPRESSED_TEX_SUB_IMAGE_2D, object = ob\<rparr> b =
     process_compressed_tex_sub_image_2D_command \<lparr>type = COMPRESSED_TEX_SUB_IMAGE_2D, object = ob\<rparr> b \<and>
   process_command M ord \<lparr>type = COMPRESSED_TEX_SUB_IMAGE_3D, object = ob\<rparr> b =
     process_compressed_tex_sub_image_3D_command \<lparr>type = COMPRESSED_TEX_SUB_IMAGE_3D, object = ob\<rparr> b \<and>
   process_command M ord \<lparr>type = COPY_BUFFER_SUB_DATA, object = ob\<rparr> b =
     process_copy_buffer_sub_data_command \<lparr>type = COPY_BUFFER_SUB_DATA, object = ob\<rparr> b \<and>
   process_command M ord \<lparr>type = COPY_TEX_IMAGE_1D, object = ob\<rparr> b =
     process_copy_tex_image_1D_command \<lparr>type = COPY_TEX_IMAGE_1D, object = ob\<rparr> b \<and>
   process_command M ord \<lparr>type = COPY_TEX_IMAGE_2D, object = ob\<rparr> b =
     process_copy_tex_image_2D_command \<lparr>type = COPY_TEX_IMAGE_2D, object = ob\<rparr> b \<and>
   process_command M ord \<lparr>type = COPY_TEX_SUB_IMAGE_1D, object = ob\<rparr> b =
     process_copy_tex_sub_image_1D_command \<lparr>type = COPY_TEX_SUB_IMAGE_1D, object = ob\<rparr> b \<and>
   process_command M ord \<lparr>type = COPY_TEX_SUB_IMAGE_2D, object = ob\<rparr> b =
     process_copy_tex_sub_image_2D_command \<lparr>type = COPY_TEX_SUB_IMAGE_2D, object = ob\<rparr> b \<and>
   process_command M ord \<lparr>type = COPY_TEX_SUB_IMAGE_3D, object = ob\<rparr> b =
     process_copy_tex_sub_image_3D_command \<lparr>type = COPY_TEX_SUB_IMAGE_3D, object = ob\<rparr> b \<and>
   process_command M ord \<lparr>type = DRAW_ARRAYS, object = ob\<rparr> b =
     process_draw_arrays_command \<lparr>type = DRAW_ARRAYS, object = ob\<rparr> b \<and>
   process_command M ord \<lparr>type = DRAW_ELEMENTS, object = ob\<rparr> b =
     process_draw_elements_command \<lparr>type = DRAW_ELEMENTS, object = ob\<rparr> b \<and>
   process_command M ord \<lparr>type = DRAW_RANGE_ELEMENTS, object = ob\<rparr> b =
     process_draw_range_elements_command \<lparr>type = DRAW_RANGE_ELEMENTS, object = ob\<rparr> b \<and>
   process_command M ord \<lparr>type = FINISH, object = ob\<rparr> b =
     process_finish_command \<lparr>type = FINISH, object = ob\<rparr> b \<and>
   process_command M ord \<lparr>type = FLUSH, object = ob\<rparr> b =
     process_flush_command \<lparr>type = FLUSH, object = ob\<rparr> b \<and>
   process_command M ord \<lparr>type = FLUSH_MAPPED_BUFFER_RANGE, object = ob\<rparr> b =
     process_flush_mapped_buffer_range_command \<lparr>type = FLUSH_MAPPED_BUFFER_RANGE, object = ob\<rparr> b \<and>
   process_command M ord \<lparr>type = GET_BUFFER_SUB_DATA, object = ob\<rparr> b =
     process_get_buffer_sub_data_command \<lparr>type = GET_BUFFER_SUB_DATA, object = ob\<rparr> b \<and>
   process_command M ord \<lparr>type = GET_COMPRESSED_TEX_IMAGE, object = ob\<rparr> b =
     process_get_compressed_tex_image_command \<lparr>type = GET_COMPRESSED_TEX_IMAGE, object = ob\<rparr> b \<and>
   process_command M ord \<lparr>type = GET_TEXTURE_IMAGE, object = ob\<rparr> b =
     process_get_texture_image_command \<lparr>type = GET_TEXTURE_IMAGE, object = ob\<rparr> b \<and>
   process_command M ord \<lparr>type = LINK_PROGRAM, object = ob\<rparr> b =
     process_link_program_command \<lparr>type = LINK_PROGRAM, object = ob\<rparr> b \<and>
   process_command M ord \<lparr>type = MAP_BUFFER, object = ob\<rparr> b =
     process_map_buffer_command \<lparr>type = MAP_BUFFER, object = ob\<rparr> b \<and>
   process_command M ord \<lparr>type = MULTI_DRAW_ARRAYS, object = ob\<rparr> b =
     process_multi_draw_arrays_command \<lparr>type = MULTI_DRAW_ARRAYS, object = ob\<rparr> b \<and>
   process_command M ord \<lparr>type = MULTI_DRAW_ELEMENTS, object = ob\<rparr> b =
     process_multi_draw_elements_command \<lparr>type = MULTI_DRAW_ELEMENTS, object = ob\<rparr> b \<and>
   process_command M ord \<lparr>type = READ_PIXELS, object = ob\<rparr> b =
     process_read_pixels_command \<lparr>type = READ_PIXELS, object = ob\<rparr> b \<and>
   process_command M ord \<lparr>type = TEX_IMAGE_1D, object = ob\<rparr> b =
     process_tex_image_1D_command \<lparr>type = TEX_IMAGE_1D, object = ob\<rparr> b \<and>
   process_command M ord \<lparr>type = TEX_IMAGE_2D, object = ob\<rparr> b =
     process_tex_image_2D_command \<lparr>type = TEX_IMAGE_2D, object = ob\<rparr> b \<and>
   process_command M ord \<lparr>type = TEX_IMAGE_3D, object = ob\<rparr> b =
     process_tex_image_3D_command \<lparr>type = TEX_IMAGE_3D, object = ob\<rparr> b \<and>
   process_command M ord \<lparr>type = TEX_SUB_IMAGE_1D, object = ob\<rparr> b =
     process_tex_sub_image_1D_command \<lparr>type = TEX_SUB_IMAGE_1D, object = ob\<rparr> b \<and>
   process_command M ord \<lparr>type = TEX_SUB_IMAGE_2D, object = ob\<rparr> b =
     process_tex_sub_image_2D_command \<lparr>type = TEX_SUB_IMAGE_2D, object = ob\<rparr> b \<and>
   process_command M ord \<lparr>type = TEX_SUB_IMAGE_3D, object = ob\<rparr> b =
     process_tex_sub_image_3D_command \<lparr>type = TEX_SUB_IMAGE_3D, object = ob\<rparr> b \<and>
   process_command M ord \<lparr>type = UNMAP_BUFFER, object = ob\<rparr> b =
     process_unmap_buffer_command \<lparr>type = UNMAP_BUFFER, object = ob\<rparr> b \<and>
   process_command M ord \<lparr>type = VALIDATE_PROGRAM, object = ob\<rparr> b =
     process_validate_program_command \<lparr>type = VALIDATE_PROGRAM, object = ob\<rparr> b \<and>
   process_command M ord \<lparr>type = UNRECOGNIZED n, object = ob\<rparr> b =
     (Trapped Assertion_failure, b)"
  by (simp add: process_command_def vkgl_assert_fail_def)

theorem process_command_dispatch_witness:
  "process_command (example_manager None) Left_to_right clear_command example_backend =
     process_clear_command clear_command example_backend \<and>
   process_command (example_manager None) Left_to_right unrecognized_command example_backend =
     (Trapped Assertion_failure, example_backend)"
  using process_command_dispatch
    [of "example_manager None" Left_to_right OtherCommand example_backend 38]
  by (simp add: clear_command_def unrecognized_command_def)

text \<open>
  C4 as stated fails in its clause that the tags are covered when the program is compiled
  and not by a default branch at run time. The tag of this command is none of the case
  labels, \<^verbatim>\<open>process_command\<close> takes it all the same, and the answer it gives is the one of
  the \<^verbatim>\<open>default\<close> label.
\<close>

theorem process_command_default_counterexample:
  "type unrecognized_command \<notin> set enumerated_command_types \<and>
   process_command (example_manager None) Left_to_right unrecognized_command example_backend =
     vkgl_assert_fail example_backend"
  by (simp add: unrecognized_command_def enumerated_command_types_def process_command_def)

text \<open>
  C8. A command whose tag is one of the enumerated command types other than
  \<open>BUFFER_DATA\<close> reaches a handler that is not implemented: processing it ends in the
  "not yet supported" trap, which is not the assertion failure trap; it does not
  return, and the backend, the frame graph with it, is left as it was.
\<close>

theorem unimplemented_handlers_trap:
  assumes "type c \<in> set enumerated_command_types" and "type c \<noteq> BUFFER_DATA"
  shows "process_command M ord c b = (Trapped Not_yet_supported, b) \<and>
         fst (process_command M ord c b) \<noteq> Returned \<and>
         fst (process_command M ord c b) \<noteq> Trapped Assertion_failure \<and>
         backend_frame_graph_manager (snd (process_command M ord c b)) =
           backend_frame_graph_manager b"
  using assms process_command_stub [of "type c" c M ord b] by simp

theorem unimplemented_handlers_trap_witness:
  "type clear_command \<in> set enumerated_command_types \<and>
   type clear_command \<noteq> BUFFER_DATA \<and>
   process_command (example_manager None) Left_to_right clear_command example_backend =
     (Trapped Not_yet_supported, example_backend)"
proof -
  have listed: "type clear_command \<in> set enumerated_command_types"
    by (simp add: clear_command_def enumerated_command_types_def)
  have other: "type clear_command \<noteq> BUFFER_DATA"
    by (simp add: clear_command_def)
  show ?thesis
    using listed other
      unimplemented_handlers_trap [OF listed other, of "example_manager None" Left_to_right
        example_backend]
    by simp
qed

section \<open>Properties of the worker loop\<close>

lemma grabbed_commands_simps:
  "grabbed_commands [] = []"
  "grabbed_commands ((None, True) # turns) = []"
  "grabbed_commands ((None, False) # turns) = grabbed_commands turns"
  "grabbed_commands ((Some c, flag) # turns) = c # grabbed_commands turns"
  by (simp_all add: grabbed_commands_def)

lemma main_thread_entrypoint_runs_grabbed:
  "main_thread_entrypoint M ord turns b =
     (case process_commands_in_order M ord (grabbed_commands turns) b of
        (Returned, b') \<Rightarrow> (if (None, True) \<in> set turns then Thread_quit else Thread_in_loop, b')
      | (Trapped t, b') \<Rightarrow> (Thread_trapped t, b'))"
proof (induction turns arbitrary: b)
  case Nil
  show ?case by (simp add: grabbed_commands_simps)
next
  case (Cons turn turns)
  obtain grabbed flag where turn: "turn = (grabbed, flag)" by (cases turn)
  show ?case
  proof (cases grabbed)
    case None
    with turn Cons show ?thesis
      by (cases flag) (simp_all add: grabbed_commands_simps)
  next
    case (Some c)
    obtain r b' where step: "process_command M ord c b = (r, b')"
      by (cases "process_command M ord c b")
    show ?thesis
    proof (cases r)
      case Returned
      with turn Some step Cons [of b'] show ?thesis
        by (simp add: grabbed_commands_simps)
    next
      case (Trapped t)
      with turn Some step show ?thesis
        by (simp add: grabbed_commands_simps)
    qed
  qed
qed

lemma quit_needs_flagged_timeout:
  assumes "fst (main_thread_entrypoint M ord turns b) = Thread_quit"
  shows "(None, True) \<in> set turns"
proof (rule ccontr)
  assume "(None, True) \<notin> set turns"
  with assms show False
    by (simp add: main_thread_entrypoint_runs_grabbed split: prod.splits outcome.splits)
qed

text \<open>
  C5. The worker leaves its loop only at a timeout of \<^verbatim>\<open>grab_with_timeout\<close> at which the
  terminating flag is set: if the thread has quit, the turns it saw contain such a timeout,
  and none before it. A timeout with the flag unset is followed by the next turn. A
  command that was grabbed is passed to \<^verbatim>\<open>process_command\<close> whether the flag is set or not
  in that turn: the whole run is the run of \<^verbatim>\<open>process_command\<close> over the grabbed commands,
  in order, up to the first timeout with the flag set. (A trap inside a handler ends the
  thread by aborting; that is not a way out of the loop.)
\<close>

theorem worker_loop_exit_and_dispatch:
  "(fst (main_thread_entrypoint M ord turns b) = Thread_quit \<longrightarrow>
      (\<exists>before after. turns = before @ (None, True) # after \<and> (None, True) \<notin> set before)) \<and>
   main_thread_entrypoint M ord ((None, False) # turns) b =
     main_thread_entrypoint M ord turns b \<and>
   main_thread_entrypoint M ord ((Some c, True) # turns) b =
     main_thread_entrypoint M ord ((Some c, False) # turns) b \<and>
   main_thread_entrypoint M ord turns b =
     (case process_commands_in_order M ord (grabbed_commands turns) b of
        (Returned, b') \<Rightarrow> (if (None, True) \<in> set turns then Thread_quit else Thread_in_loop, b')
      | (Trapped t, b') \<Rightarrow> (Thread_trapped t, b'))"
proof -
  have quit: "fst (main_thread_entrypoint M ord turns b) = Thread_quit \<longrightarrow>
      (\<exists>before after. turns = before @ (None, True) # after \<and> (None, True) \<notin> set before)"
    using quit_needs_flagged_timeout [of M ord turns b] split_list_first [of "(None, True)" turns]
    by blast
  from quit main_thread_entrypoint_runs_grabbed [of M ord turns b] show ?thesis
    by simp
qed

text \<open>
  A timeout with the flag unset, a command grabbed while the flag is already set, then a
  timeout with the flag set: the command is processed, and the thread quits at the second
  timeout without looking at what follows.
\<close>

theorem worker_loop_exit_and_dispatch_witness:
  "fst (main_thread_entrypoint (example_manager (Some example_backend_reference)) Left_to_right
          [(None, False), (Some example_command, True), (None, True), (Some clear_command, False)]
          example_backend) = Thread_quit \<and>
   (\<exists>before after.
      [(None, False), (Some example_command, True), (None, True), (Some clear_command, False)] =
        before @ (None, True) # after \<and> (None, True) \<notin> set before) \<and>
   length (backend_frame_graph_manager (snd (main_thread_entrypoint
      (example_manager (Some example_backend_reference)) Left_to_right
      [(None, False), (Some example_command, True), (None, True), (Some clear_command, False)]
      example_backend))) = 1"
proof -
  let ?M = "example_manager (Some example_backend_reference)"
  let ?turns =
    "[(None, False), (Some example_command, True), (None, True), (Some clear_command, False)]"
  have run: "main_thread_entrypoint ?M Left_to_right ?turns example_backend =
      (Thread_quit,
       \<lparr>backend_buffer_manager = (),
        backend_frame_graph_manager =
          [BufferData_node \<lparr>inputs = [NodeIO (clone example_backend_reference) 0 128],
                            outputs = [NodeIO (clone example_backend_reference) 0 128],
                            command_ptr = Some example_command\<rparr>]\<rparr>)"
    using process_buffer_data_returns [of example_command example_frontend_reference 128
        ?M Left_to_right example_backend example_backend_reference "()"]
      example_retrieve [of "Some example_backend_reference" Left_to_right]
    by (simp add: process_command_buffer_data example_command_simps example_backend_def)
  then have quit: "fst (main_thread_entrypoint ?M Left_to_right ?turns example_backend) =
      Thread_quit"
    by simp
  have split: "\<exists>before after. ?turns = before @ (None, True) # after \<and> (None, True) \<notin> set before"
    using quit worker_loop_exit_and_dispatch [of ?M Left_to_right ?turns example_backend]
    by blast
  from run quit split show ?thesis by simp
qed

section \<open>Properties of the destructor\<close>

lemmas destructor_step_defs =
  terminating_exchange_def scheduler_thread_join_def command_ring_buffer_reset_def

text \<open>
  C6, as the code has it. When the scheduler has a worker thread, the destructor sets the
  terminating flag, then joins the thread, then releases the ring buffer, in this order.
  When it has none (the thread pointer is null, as after the constructor), the destructor
  only releases the ring buffer and leaves the flag as it was. In both cases the ring
  buffer is released, and no join comes after the release.
\<close>

theorem destructor_order:
  "(m_scheduler_thread_ptr s \<noteq> None \<longrightarrow>
      fst (VKScheduler_destructor s) =
        [Terminating_exchange True, Scheduler_thread_join, Command_ring_buffer_reset] \<and>
      m_terminating (snd (VKScheduler_destructor s)) \<and>
      m_scheduler_thread_ptr (snd (VKScheduler_destructor s)) = Some Joined) \<and>
   (m_scheduler_thread_ptr s = None \<longrightarrow>
      fst (VKScheduler_destructor s) = [Command_ring_buffer_reset] \<and>
      m_terminating (snd (VKScheduler_destructor s)) = m_terminating s) \<and>
   m_command_ring_buffer_ptr (snd (VKScheduler_destructor s)) = None \<and>
   (\<forall>before after.
      fst (VKScheduler_destructor s) = before @ Command_ring_buffer_reset # after \<longrightarrow>
      Scheduler_thread_join \<notin> set after)"
proof (cases "m_scheduler_thread_ptr s")
  case None
  then show ?thesis
    by (auto simp: VKScheduler_destructor_def destructor_step_defs Cons_eq_append_conv)
next
  case (Some th)
  then show ?thesis
    by (auto simp: VKScheduler_destructor_def destructor_step_defs Cons_eq_append_conv)
qed

theorem destructor_order_witness:
  "m_scheduler_thread_ptr running_scheduler \<noteq> None \<and>
   fst (VKScheduler_destructor running_scheduler) =
     [Terminating_exchange True, Scheduler_thread_join, Command_ring_buffer_reset] \<and>
   fst (VKScheduler_destructor running_scheduler) =
     [Terminating_exchange True, Scheduler_thread_join] @ Command_ring_buffer_reset # [] \<and>
   Scheduler_thread_join \<notin> set [] \<and>
   m_scheduler_thread_ptr VKScheduler_constructor = None \<and>
   fst (VKScheduler_destructor VKScheduler_constructor) = [Command_ring_buffer_reset]"
proof -
  have running: "m_scheduler_thread_ptr running_scheduler \<noteq> None"
    by (simp add: running_scheduler_def)
  have fresh: "m_scheduler_thread_ptr VKScheduler_constructor = None"
    by (simp add: VKScheduler_constructor_def)
  show ?thesis
    using running fresh
      destructor_order [of running_scheduler] destructor_order [of VKScheduler_constructor]
    by simp
qed

text \<open>
  C6 as stated fails for a scheduler without a worker thread. Destroying the scheduler the
  constructor made calls neither the exchange on the flag nor the join, and the flag is
  still unset afterwards.
\<close>

theorem destructor_without_thread_counterexample:
  "fst (VKScheduler_destructor VKScheduler_constructor) = [Command_ring_buffer_reset] \<and>
   Terminating_exchange True \<notin> set (fst (VKScheduler_destructor VKScheduler_constructor)) \<and>
   Scheduler_thread_join \<notin> set (fst (VKScheduler_destructor VKScheduler_constructor)) \<and>
   \<not> m_terminating (snd (VKScheduler_destructor VKScheduler_constructor))"
  by (simp add: VKScheduler_destructor_def destructor_step_defs VKScheduler_constructor_def)

end
